theory Spec2Isabelle
  imports Main "HOL-Library.Word" "HOL-Library.Multiset"
begin

section \<open>The node coordination layer of bdns (internal/network/node.go)\<close>

text \<open>
  The Go file declares the \<open>Node\<close> struct, the gossip dispatch loop, the handler of
  direct \<open>/dns-response\<close> streams, the DNS request and response handlers, the three
  broadcast operations and the per-epoch table of randomness contributions.
  The model is sequential: every operation is a function on the node (or on the node
  together with the chronological trace of what it did to the outside). The
  \<open>sync.Mutex\<close> fields, which a method that locks acquires and releases around
  its own body, never nested within the file, are left out.
\<close>

subsection \<open>Machine types\<close>

type_synonym byte = "8 word"
type_synonym int64 = "64 word"

text \<open>Go's \<open>int\<close> on a 64-bit platform. The file only stores and copies such values.\<close>

type_synonym go_int = "64 word"

text \<open>
  A Go map is a reference that may be \<open>nil\<close>: \<open>None\<close> is the nil map, \<open>Some m\<close> an
  allocated one. Reading a nil map behaves like reading an empty one.
\<close>

type_synonym ('k, 'v) gomap = "('k \<rightharpoonup> 'v) option"

definition entries :: "('k, 'v) gomap \<Rightarrow> ('k \<rightharpoonup> 'v)" where
  "entries m = (case m of None \<Rightarrow> Map.empty | Some f \<Rightarrow> f)"

subsection \<open>encoding/hex\<close>

definition hexdigit :: "nat \<Rightarrow> char" where
  "hexdigit d = ''0123456789abcdef'' ! d"

definition hex_EncodeToString :: "byte list \<Rightarrow> string" where
  "hex_EncodeToString src =
     concat (map (\<lambda>b. [hexdigit (unat b div 16), hexdigit (unat b mod 16)]) src)"

subsection \<open>Data declared by the file and by its collaborators\<close>

text \<open>\<open>consensus.SecretValues\<close>: the two fields the file writes.\<close>

record SecretValues =
  SecretValue :: go_int
  RandomValue :: go_int

text \<open>
  \<open>blockchain.Transaction\<close>: the fields \<open>DNSRequestHandler\<close> reads. The struct is
  declared in another package; a record is extensible, so further fields do not matter.
\<close>

record Transaction =
  Timestamp :: int64
  DomainName :: string
  IP :: string
  TTL :: int64
  OwnerKey :: "byte list"
  Signature :: "byte list"

record KeyPair =
  PublicKey :: "byte list"
  PrivateKey :: "byte list"

text \<open>\<open>Seed\<close> is a \<open>float64\<close>, kept as its 64 bits; the file never reads it.\<close>

record NodeConfig =
  InitialTimestamp :: int64
  EpochInterval :: int64
  Seed :: "64 word"

text \<open>
  The \<open>Node\<close> struct. \<open>KeyPair\<close> is a pointer that the code dereferences, so it is an
  option (\<open>None\<close> is nil); \<open>Blockchain\<close> is a pointer that \<open>NewNode\<close> leaves nil, to a
  type \<open>'bc\<close> declared elsewhere. \<open>IndexManager\<close> is the ledger index.

  Modelled from the spec: \<open>index.IndexManager\<close> and its \<open>GetIP\<close> are not in the
  file; the spec gives the contract \<open>GetRecord(domain) -> record|absent\<close>, so the
  index is a partial map from domain names to stored transactions.
\<close>

record 'bc Node =
  Address :: string
  Port :: go_int
  Config :: NodeConfig
  KeyPair :: "KeyPair option"
  RegistryKeys :: "byte list list"
  SlotLeaders :: "(int64, byte list) gomap"
  TransactionPool :: "(go_int, Transaction) gomap"
  IndexManager :: "string \<rightharpoonup> Transaction"
  Blockchain :: "'bc option"
  RandomNumber :: "byte list"
  EpochRandoms :: "(int64, (string, SecretValues) gomap) gomap"

definition GetIP :: "(string \<rightharpoonup> Transaction) \<Rightarrow> string \<Rightarrow> Transaction option" where
  "GetIP im domainName = im domainName"

subsection \<open>The randomness handler\<close>

text \<open>
  \<open>RandomNumberHandler\<close> allocates the outer map when it is nil, allocates the inner
  map of the epoch when \<open>n.EpochRandoms[epoch] == nil\<close> (the key is missing or holds a
  nil map), and stores the pair under the sender.
\<close>

definition RandomNumberHandler ::
  "int64 \<Rightarrow> string \<Rightarrow> go_int \<Rightarrow> go_int \<Rightarrow> 'bc Node \<Rightarrow> 'bc Node" where
  "RandomNumberHandler epoch sender secretValue randomValue n =
     (let outer = entries (EpochRandoms n);
          inner = (case outer epoch of None \<Rightarrow> Map.empty | Some im \<Rightarrow> entries im)
      in n\<lparr>EpochRandoms :=
            Some (outer(epoch \<mapsto>
              Some (inner(sender \<mapsto>
                \<lparr>SecretValue = secretValue, RandomValue = randomValue\<rparr>))))\<rparr>)"

text \<open>
  The read \<open>v, ok := n.EpochRandoms[epoch][sender]\<close>: \<open>None\<close> when either level
  misses the key.
\<close>

definition EpochRandomsAt :: "'bc Node \<Rightarrow> int64 \<Rightarrow> string \<Rightarrow> SecretValues option" where
  "EpochRandomsAt n epoch sender =
     (case entries (EpochRandoms n) epoch of
        None \<Rightarrow> None
      | Some im \<Rightarrow> entries im sender)"

subsection \<open>Messages\<close>

text \<open>
  Modelled from the spec: the message-type constants, \<open>GossipMessage\<close>,
  \<open>BDNSRequest\<close> and \<open>BDNSResponse\<close> are declared in other files of the package.
  The spec lists the envelope as \<open>{Type, Content, Sender}\<close> with five types, the
  query as \<open>{DomainName}\<close> and the response as
  \<open>{Timestamp, DomainName, IP, TTL, OwnerKey, Signature}\<close>. \<open>MsgOther\<close> stands for
  any further value of the underlying type (the commented-out chain messages among
  them): the \<open>switch\<close> of the dispatch loop has no default branch.
\<close>

datatype MessageType =
  DNSRequest | DNSResponse | MsgTransaction | MsgBlock | MsgRandomNumber | MsgOther nat

record GossipMessage =
  Type :: MessageType
  Content :: "byte list"
  Sender :: string

record BDNSRequest =
  DomainName :: string

record BDNSResponse =
  Timestamp :: int64
  DomainName :: string
  IP :: string
  TTL :: int64
  OwnerKey :: "byte list"
  Signature :: "byte list"

record RandomNumberMsg =
  Epoch :: int64
  SecretValue :: go_int
  RandomValue :: go_int
  Sender :: "byte list"

text \<open>The values handed to the transport as \<open>interface{}\<close> payloads.\<close>

datatype payload =
  PRequest BDNSRequest
| PTransaction Transaction
| PRandom RandomNumberMsg
| PResponse BDNSResponse

subsection \<open>Collaborators outside the file\<close>

text \<open>
  What the file calls and does not define is a parameter, collected in one record.
  A decoder returns the error, if any, together with the value left in the destination
  variable (\<open>json.Unmarshal\<close> may return an error after filling some fields).
  \<open>AddTransaction\<close> and \<open>AddBlock\<close> are methods of \<open>Node\<close> defined in another
  file: they are taken as functions on the node. \<open>CommitmentPhase\<close> gives the second
  component of the call's result, read as a map; the outcome of the randomness it may
  draw is fixed by the parameter. \<open>rand_Read\<close> gives, for a buffer of the given
  length, the bytes written to its front and the error.
\<close>

record ('blk, 'bc) env =
  Unmarshal_BDNSRequest :: "byte list \<Rightarrow> string option \<times> BDNSRequest"
  Unmarshal_Transaction :: "byte list \<Rightarrow> string option \<times> Transaction"
  Unmarshal_Block :: "byte list \<Rightarrow> string option \<times> 'blk"
  Unmarshal_RandomNumberMsg :: "byte list \<Rightarrow> string option \<times> RandomNumberMsg"
  Unmarshal_BDNSResponse :: "byte list \<Rightarrow> string option \<times> BDNSResponse"
  Decode_GossipMessage :: "byte list \<Rightarrow> string option \<times> GossipMessage"
  AddTransaction :: "Transaction \<Rightarrow> 'bc Node \<Rightarrow> 'bc Node"
  AddBlock :: "'blk \<Rightarrow> 'bc Node \<Rightarrow> 'bc Node"
  CommitmentPhase :: "byte list list \<Rightarrow> (string \<rightharpoonup> SecretValues)"
  rand_Read :: "nat \<Rightarrow> byte list \<times> string option"

subsection \<open>The node and the trace of what it does\<close>

text \<open>
  Every call that leaves the file is recorded, in order, with the state of the node at
  the moment of the call: log lines, printed lines, the calls of \<open>AddTransaction\<close>,
  \<open>AddBlock\<close> and \<open>CommitmentPhase\<close>, the two kinds of send, and the closing of a
  direct stream.
\<close>

datatype 'blk event =
  Logged "string list"
| Printed "string list"
| Called_AddTransaction Transaction
| Called_AddBlock 'blk
| Called_CommitmentPhase "byte list list"
| Broadcast MessageType payload
| Direct MessageType payload string
| Closed

record ('blk, 'bc) sys =
  node :: "'bc Node"
  trace :: "('blk event \<times> 'bc Node) list"

definition emit :: "'blk event \<Rightarrow> ('blk, 'bc) sys \<Rightarrow> ('blk, 'bc) sys" where
  "emit ev s = s\<lparr>trace := trace s @ [(ev, node s)]\<rparr>"

definition events :: "('blk, 'bc) sys \<Rightarrow> 'blk event list" where
  "events s = map fst (trace s)"

text \<open>
  Modelled from the spec: \<open>P2PNetwork.BroadcastMessage\<close> and
  \<open>P2PNetwork.DirectMessage\<close> are not in the file. The spec gives the transport as
  \<open>Broadcast(type, payload)\<close> and \<open>DirectMessage(type, payload, destinationPeerID)\<close>,
  all sends fire-and-forget: the send is recorded and control returns.
\<close>

definition BroadcastMessage ::
  "MessageType \<Rightarrow> payload \<Rightarrow> ('blk, 'bc) sys \<Rightarrow> ('blk, 'bc) sys" where
  "BroadcastMessage msgType p s = emit (Broadcast msgType p) s"

definition DirectMessage ::
  "MessageType \<Rightarrow> payload \<Rightarrow> string \<Rightarrow> ('blk, 'bc) sys \<Rightarrow> ('blk, 'bc) sys" where
  "DirectMessage msgType p peer s = emit (Direct msgType p peer) s"

definition call_AddTransaction ::
  "('blk, 'bc) env \<Rightarrow> Transaction \<Rightarrow> ('blk, 'bc) sys \<Rightarrow> ('blk, 'bc) sys" where
  "call_AddTransaction env tx s =
     (emit (Called_AddTransaction tx) s)\<lparr>node := AddTransaction env tx (node s)\<rparr>"

definition call_AddBlock ::
  "('blk, 'bc) env \<Rightarrow> 'blk \<Rightarrow> ('blk, 'bc) sys \<Rightarrow> ('blk, 'bc) sys" where
  "call_AddBlock env b s =
     (emit (Called_AddBlock b) s)\<lparr>node := AddBlock env b (node s)\<rparr>"

text \<open>A panic, with the state in which it was raised.\<close>

datatype gopanic = Panic "string list" | NilDereference

subsection \<open>The operations of the file\<close>

definition GenerateRandomNumber ::
  "('blk, 'bc) env \<Rightarrow> ('blk, 'bc) sys \<Rightarrow>
     (gopanic \<times> ('blk, 'bc) sys) + (byte list \<times> ('blk, 'bc) sys)" where
  "GenerateRandomNumber env s =
     (let buf = replicate 32 (0 :: byte) in
      case rand_Read env (length buf) of (written, err) \<Rightarrow>
        (let randomBytes = take (length buf) written @ drop (length written) buf in
         case err of
           Some e \<Rightarrow>
             Inl (Panic [''Failed to generate random number:'', e],
                  emit (Logged [''Failed to generate random number:'', e]) s)
         | None \<Rightarrow>
             Inr (randomBytes, s\<lparr>node := (node s)\<lparr>RandomNumber := randomBytes\<rparr>\<rparr>)))"

definition DNSRequestHandler ::
  "BDNSRequest \<Rightarrow> string \<Rightarrow> ('blk, 'bc) sys \<Rightarrow> ('blk, 'bc) sys" where
  "DNSRequestHandler req reqSender s =
     (let s1 = (case GetIP (IndexManager (node s)) (BDNSRequest.DomainName req) of
                  Some tx \<Rightarrow>
                    DirectMessage DNSResponse
                      (PResponse \<lparr>Timestamp = Transaction.Timestamp tx,
                                  DomainName = Transaction.DomainName tx,
                                  IP = Transaction.IP tx,
                                  TTL = Transaction.TTL tx,
                                  OwnerKey = Transaction.OwnerKey tx,
                                  Signature = Transaction.Signature tx\<rparr>)
                      reqSender s
                | None \<Rightarrow> s)
      in emit (Printed [''DNS Request received at '', Address (node s1), '' -> '',
                        BDNSRequest.DomainName req]) s1)"

definition DNSResponseHandler :: "BDNSResponse \<Rightarrow> ('blk, 'bc) sys \<Rightarrow> ('blk, 'bc) sys" where
  "DNSResponseHandler res s =
     emit (Printed [''DNS Response received at '', Address (node s), '' -> '',
                    BDNSResponse.DomainName res, '' IP:'', BDNSResponse.IP res]) s"

text \<open>The body of the \<open>for msg := range MsgChan\<close> loop, for one message.\<close>

definition gossip_step ::
  "('blk, 'bc) env \<Rightarrow> GossipMessage \<Rightarrow> ('blk, 'bc) sys \<Rightarrow> ('blk, 'bc) sys" where
  "gossip_step env msg s =
     (case Type msg of
        DNSRequest \<Rightarrow>
          (case Unmarshal_BDNSRequest env (Content msg) of (err, req) \<Rightarrow>
             DNSRequestHandler req (GossipMessage.Sender msg)
               (case err of Some e \<Rightarrow> emit (Logged [''Failed during unmarshalling'']) s
                          | None \<Rightarrow> s))
      | MsgTransaction \<Rightarrow>
          (case Unmarshal_Transaction env (Content msg) of (err, tx) \<Rightarrow>
             call_AddTransaction env tx
               (case err of Some e \<Rightarrow> emit (Logged [''Failed during unmarshalling'']) s
                          | None \<Rightarrow> s))
      | MsgBlock \<Rightarrow>
          (case Unmarshal_Block env (Content msg) of (err, block) \<Rightarrow>
             call_AddBlock env block
               (case err of Some e \<Rightarrow> emit (Logged [''Failed during unmarshalling'']) s
                          | None \<Rightarrow> s))
      | MsgRandomNumber \<Rightarrow>
          (case Unmarshal_RandomNumberMsg env (Content msg) of (err, randomMsg) \<Rightarrow>
             (case err of
                Some e \<Rightarrow>
                  emit (Logged [''Failed to unmarshal random number message:'', e]) s
              | None \<Rightarrow>
                  s\<lparr>node := RandomNumberHandler (Epoch randomMsg)
                               (hex_EncodeToString (RandomNumberMsg.Sender randomMsg))
                               (RandomNumberMsg.SecretValue randomMsg)
                               (RandomNumberMsg.RandomValue randomMsg) (node s)\<rparr>))
      | DNSResponse \<Rightarrow> s
      | MsgOther k \<Rightarrow> s)"

text \<open>
  \<open>HandleGossip\<close> on the messages the channel delivers before it is closed, in
  arrival order; the closing line is printed after the last one.
\<close>

primrec gossip_loop ::
  "('blk, 'bc) env \<Rightarrow> GossipMessage list \<Rightarrow> ('blk, 'bc) sys \<Rightarrow> ('blk, 'bc) sys" where
  "gossip_loop env [] s = s"
| "gossip_loop env (msg # msgs) s = gossip_loop env msgs (gossip_step env msg s)"

definition HandleGossip ::
  "('blk, 'bc) env \<Rightarrow> GossipMessage list \<Rightarrow> ('blk, 'bc) sys \<Rightarrow> ('blk, 'bc) sys" where
  "HandleGossip env msgChan s =
     (let s1 = gossip_loop env msgChan s
      in emit (Printed [''Exiting gossip listener for '', Address (node s1)]) s1)"

text \<open>
  The callback that \<open>ListenForDirectMessages\<close> registers, on the bytes of one inbound
  stream; \<open>defer s.Close()\<close> runs on every path.
\<close>

definition dns_response_stream ::
  "('blk, 'bc) env \<Rightarrow> byte list \<Rightarrow> ('blk, 'bc) sys \<Rightarrow> ('blk, 'bc) sys" where
  "dns_response_stream env stream s =
     emit Closed
       (case Decode_GossipMessage env stream of (err, response) \<Rightarrow>
          (case err of
             Some e \<Rightarrow> emit (Logged [''Error decoding direct response:'', e]) s
           | None \<Rightarrow>
               if Type response \<noteq> DNSResponse
               then emit (Logged [''Invalid message type received'']) s
               else (case Unmarshal_BDNSResponse env (Content response) of (err2, res) \<Rightarrow>
                       DNSResponseHandler res
                         (case err2 of
                            Some e2 \<Rightarrow> emit (Logged [''Failed during unmarshalling'']) s
                          | None \<Rightarrow> s))))"

text \<open>The table of stream handlers after \<open>ListenForDirectMessages\<close>, by protocol id.\<close>

definition ListenForDirectMessages ::
  "('blk, 'bc) env \<Rightarrow> string \<Rightarrow> (byte list \<Rightarrow> ('blk, 'bc) sys \<Rightarrow> ('blk, 'bc) sys) option" where
  "ListenForDirectMessages env protocolID =
     (if protocolID = ''/dns-response'' then Some (dns_response_stream env) else None)"

definition BroadcastTransaction ::
  "('blk, 'bc) env \<Rightarrow> Transaction \<Rightarrow> ('blk, 'bc) sys \<Rightarrow> ('blk, 'bc) sys" where
  "BroadcastTransaction env tx s =
     BroadcastMessage MsgTransaction (PTransaction tx) (call_AddTransaction env tx s)"

definition MakeDNSRequest :: "string \<Rightarrow> ('blk, 'bc) sys \<Rightarrow> ('blk, 'bc) sys" where
  "MakeDNSRequest domainName s =
     BroadcastMessage DNSRequest (PRequest \<lparr>BDNSRequest.DomainName = domainName\<rparr>) s"

text \<open>
  \<open>BroadcastRandomNumber\<close>: the commitment phase runs on the node's own
  \<open>RegistryKeys\<close>; the parameter \<open>registryKeys\<close> is never read. Indexing the result
  with a missing key gives the zero value. \<open>n.KeyPair.PublicKey\<close> panics on a nil
  \<open>KeyPair\<close>, after the commitment phase has been called.
\<close>

definition BroadcastRandomNumber ::
  "('blk, 'bc) env \<Rightarrow> int64 \<Rightarrow> byte list list \<Rightarrow> ('blk, 'bc) sys \<Rightarrow>
     (gopanic \<times> ('blk, 'bc) sys) + ('blk, 'bc) sys" where
  "BroadcastRandomNumber env epoch registryKeys s =
     (let secretValues = CommitmentPhase env (RegistryKeys (node s));
          s0 = emit (Called_CommitmentPhase (RegistryKeys (node s))) s
      in case KeyPair (node s0) of
           None \<Rightarrow> Inl (NilDereference, s0)
         | Some kp \<Rightarrow>
             (let nodeSecretValues =
                    (case secretValues (hex_EncodeToString (PublicKey kp)) of
                       None \<Rightarrow> \<lparr>SecretValues.SecretValue = 0, SecretValues.RandomValue = 0\<rparr>
                     | Some v \<Rightarrow> v);
                  msg = \<lparr>Epoch = epoch,
                         SecretValue = SecretValues.SecretValue nodeSecretValues,
                         RandomValue = SecretValues.RandomValue nodeSecretValues,
                         Sender = PublicKey kp\<rparr>;
                  s1 = s0\<lparr>node := RandomNumberHandler epoch
                                     (hex_EncodeToString (PublicKey kp))
                                     (SecretValues.SecretValue nodeSecretValues)
                                     (SecretValues.RandomValue nodeSecretValues) (node s0)\<rparr>
              in Inr (BroadcastMessage MsgRandomNumber (PRandom msg) s1)))"

subsection \<open>Sequences of contributions\<close>

text \<open>
  The randomness handler applied to the contributions \<open>(sender, secret, random)\<close> of
  one epoch, in the order of the list.
\<close>

primrec deliver_contributions ::
  "int64 \<Rightarrow> (string \<times> go_int \<times> go_int) list \<Rightarrow> 'bc Node \<Rightarrow> 'bc Node" where
  "deliver_contributions epoch [] n = n"
| "deliver_contributions epoch (c # cs) n =
     deliver_contributions epoch cs
       (RandomNumberHandler epoch (fst c) (fst (snd c)) (snd (snd c)) n)"

subsection \<open>A concrete node and concrete collaborators\<close>

text \<open>
  A node that holds one record, with decoders that accept a few byte strings and
  reject every other one leaving the zero value, used to run the operations.
\<close>

definition example_key :: "byte list" where
  "example_key = [0xab, 0x01]"

definition example_tx :: Transaction where
  "example_tx = \<lparr>Transaction.Timestamp = 1, Transaction.DomainName = ''example.bdns'',
                  Transaction.IP = ''10.0.0.1'', Transaction.TTL = 3600,
                  Transaction.OwnerKey = [1], Transaction.Signature = [2]\<rparr>"

definition zero_tx :: Transaction where
  "zero_tx = \<lparr>Transaction.Timestamp = 0, Transaction.DomainName = [],
               Transaction.IP = [], Transaction.TTL = 0,
               Transaction.OwnerKey = [], Transaction.Signature = []\<rparr>"

definition example_node :: "unit Node" where
  "example_node =
     \<lparr>Address = ''/ip4/127.0.0.1/tcp/4001'', Port = 4001,
      Config = \<lparr>InitialTimestamp = 0, EpochInterval = 10, Seed = 0\<rparr>,
      KeyPair = Some \<lparr>PublicKey = example_key, PrivateKey = [3]\<rparr>,
      RegistryKeys = [example_key, [0xcd]],
      SlotLeaders = Some Map.empty,
      TransactionPool = Some Map.empty,
      IndexManager = [''example.bdns'' \<mapsto> example_tx],
      Blockchain = None,
      RandomNumber = [],
      EpochRandoms = Some Map.empty\<rparr>"

definition example_env :: "(unit, unit) env" where
  "example_env =
     \<lparr>Unmarshal_BDNSRequest =
        (\<lambda>c. if c = [1] then (None, \<lparr>BDNSRequest.DomainName = ''example.bdns''\<rparr>)
             else if c = [2] then (None, \<lparr>BDNSRequest.DomainName = ''missing.bdns''\<rparr>)
             else (Some ''unexpected end of JSON input'', \<lparr>BDNSRequest.DomainName = []\<rparr>)),
      Unmarshal_Transaction =
        (\<lambda>c. if c = [1] then (None, example_tx)
             else (Some ''unexpected end of JSON input'', zero_tx)),
      Unmarshal_Block = (\<lambda>c. if c = [1] then (None, ()) else (Some ''unexpected end of JSON input'', ())),
      Unmarshal_RandomNumberMsg =
        (\<lambda>c. if c = [1] then (None, \<lparr>Epoch = 7, SecretValue = 5, RandomValue = 9, Sender = example_key\<rparr>)
             else (Some ''unexpected end of JSON input'',
                   \<lparr>Epoch = 0, SecretValue = 0, RandomValue = 0, Sender = []\<rparr>)),
      Unmarshal_BDNSResponse =
        (\<lambda>c. if c = [1] then
               (None, \<lparr>Timestamp = 1, DomainName = ''example.bdns'', IP = ''10.0.0.1'',
                       TTL = 3600, OwnerKey = [1], Signature = [2]\<rparr>)
             else (Some ''unexpected end of JSON input'',
                   \<lparr>Timestamp = 0, DomainName = [], IP = [], TTL = 0, OwnerKey = [],
                    Signature = []\<rparr>)),
      Decode_GossipMessage =
        (\<lambda>c. if c = [1] then (None, \<lparr>Type = DNSResponse, Content = [1], Sender = ''peerA''\<rparr>)
             else if c = [2] then (None, \<lparr>Type = MsgTransaction, Content = [1], Sender = ''peerA''\<rparr>)
             else if c = [3] then (None, \<lparr>Type = DNSResponse, Content = [0x7b], Sender = ''peerA''\<rparr>)
             else (Some ''unexpected end of JSON input'',
                   \<lparr>Type = MsgOther 0, Content = [], Sender = []\<rparr>)),
      AddTransaction =
        (\<lambda>tx n. n\<lparr>TransactionPool := Some ((entries (TransactionPool n))(0 \<mapsto> tx))\<rparr>),
      AddBlock = (\<lambda>b n. n),
      CommitmentPhase =
        (\<lambda>keys. map_of (map (\<lambda>k. (hex_EncodeToString k,
                    \<lparr>SecretValues.SecretValue = 5, SecretValues.RandomValue = 9\<rparr>)) keys)),
      rand_Read = (\<lambda>k. (replicate k 7, None))\<rparr>"

definition example_sys :: "(unit, unit) sys" where
  "example_sys = \<lparr>node = example_node, trace = []\<rparr>"

section \<open>Properties\<close>

subsection \<open>Auxiliary facts\<close>

lemma EpochRandomsAt_handler:
  "EpochRandomsAt (RandomNumberHandler e p s r n) e' p' =
     (if e' = e \<and> p' = p then Some \<lparr>SecretValues.SecretValue = s, SecretValues.RandomValue = r\<rparr>
      else EpochRandomsAt n e' p')"
  by (simp add: EpochRandomsAt_def RandomNumberHandler_def entries_def Let_def
           split: option.splits)

lemma RandomNumberHandler_idem:
  "RandomNumberHandler e p s r (RandomNumberHandler e p s r n) = RandomNumberHandler e p s r n"
  by (simp add: RandomNumberHandler_def entries_def Let_def)

lemma RandomNumberHandler_frame:
  "RandomNumberHandler e p s r n = n\<lparr>EpochRandoms := EpochRandoms (RandomNumberHandler e p s r n)\<rparr>"
  by (simp add: RandomNumberHandler_def Let_def)

lemma RandomNumberHandler_commute:
  assumes "e \<noteq> e' \<or> p \<noteq> p'"
  shows "RandomNumberHandler e p s r (RandomNumberHandler e' p' s' r' n) =
         RandomNumberHandler e' p' s' r' (RandomNumberHandler e p s r n)"
proof (cases "e = e'")
  case True
  with assms have "p \<noteq> p'" by simp
  with True show ?thesis
    by (simp add: RandomNumberHandler_def entries_def Let_def fun_upd_twist)
next
  case False
  then show ?thesis
    by (simp add: RandomNumberHandler_def entries_def Let_def fun_upd_twist)
qed

lemma deliver_contributions_fold:
  "deliver_contributions e cs n =
     fold (\<lambda>c. RandomNumberHandler e (fst c) (fst (snd c)) (snd (snd c))) cs n"
  by (induction cs arbitrary: n) simp_all

lemma deliver_contributions_perm:
  assumes "distinct (map fst cs)" and "mset cs' = mset cs"
  shows "deliver_contributions e cs' n = deliver_contributions e cs n"
proof -
  let ?f = "\<lambda>c. RandomNumberHandler e (fst c) (fst (snd c)) (snd (snd c)) :: 'a Node \<Rightarrow> 'a Node"
  have comm: "?f x \<circ> ?f y = ?f y \<circ> ?f x" if "x \<in> set cs" "y \<in> set cs" for x y
  proof (cases "x = y")
    case True
    then show ?thesis by simp
  next
    case False
    with that assms(1) have "fst x \<noteq> fst y"
      by (metis eq_key_imp_eq_value prod.collapse)
    then show ?thesis
      by (auto simp: fun_eq_iff intro: RandomNumberHandler_commute)
  qed
  have "fold ?f cs = fold ?f cs'"
    by (rule fold_multiset_equiv) (use comm assms(2) in auto)
  then show ?thesis
    by (simp add: deliver_contributions_fold)
qed

lemma EpochRandomsAt_deliver:
  "distinct (map fst cs) \<Longrightarrow>
   EpochRandomsAt (deliver_contributions e cs n) e p =
     (case map_of cs p of
        Some v \<Rightarrow> Some \<lparr>SecretValues.SecretValue = fst v, SecretValues.RandomValue = snd v\<rparr>
      | None \<Rightarrow> EpochRandomsAt n e p)"
proof (induction cs arbitrary: n)
  case Nil
  then show ?case by simp
next
  case (Cons c cs)
  then show ?case
    by (cases c) (auto simp: EpochRandomsAt_handler split: option.splits dest: map_of_SomeD
         intro: rev_image_eqI)
qed

lemma hex_example_key: "hex_EncodeToString example_key = ''ab01''"
  by (simp add: hex_EncodeToString_def hexdigit_def example_key_def)

lemma BroadcastRandomNumber_Some:
  assumes "KeyPair (node st) = Some kp"
  shows "BroadcastRandomNumber env E rk st =
     (let v = (case CommitmentPhase env (RegistryKeys (node st))
                      (hex_EncodeToString (PublicKey kp)) of
                 None \<Rightarrow> \<lparr>SecretValues.SecretValue = 0, SecretValues.RandomValue = 0\<rparr>
               | Some v \<Rightarrow> v);
          nd = RandomNumberHandler E (hex_EncodeToString (PublicKey kp))
                 (SecretValues.SecretValue v) (SecretValues.RandomValue v) (node st)
      in Inr \<lparr>node = nd,
              trace = trace st @
                [(Called_CommitmentPhase (RegistryKeys (node st)), node st),
                 (Broadcast MsgRandomNumber
                    (PRandom \<lparr>Epoch = E, SecretValue = SecretValues.SecretValue v,
                              RandomValue = SecretValues.RandomValue v,
                              Sender = PublicKey kp\<rparr>), nd)]\<rparr>)"
  using assms
  by (simp add: BroadcastRandomNumber_def BroadcastMessage_def emit_def Let_def)

subsection \<open>Decoding failures\<close>

text \<open>
  The loop handles a sequence of messages one after the other, and what a path does
  when its decoder reports an error holds for every choice of the collaborators.
\<close>

lemma gossip_loop_append:
  "gossip_loop env (xs @ ys) st = gossip_loop env ys (gossip_loop env xs st)"
  by (induction xs arbitrary: st) simp_all

lemma gossip_step_decode_error:
  "Type msg = DNSRequest \<Longrightarrow> Unmarshal_BDNSRequest env (Content msg) = (Some e, req) \<Longrightarrow>
     gossip_step env msg st =
       DNSRequestHandler req (GossipMessage.Sender msg)
         (emit (Logged [''Failed during unmarshalling'']) st)"
  "Type msg = MsgTransaction \<Longrightarrow> Unmarshal_Transaction env (Content msg) = (Some e, tx) \<Longrightarrow>
     gossip_step env msg st =
       call_AddTransaction env tx (emit (Logged [''Failed during unmarshalling'']) st)"
  "Type msg = MsgBlock \<Longrightarrow> Unmarshal_Block env (Content msg) = (Some e, block) \<Longrightarrow>
     gossip_step env msg st =
       call_AddBlock env block (emit (Logged [''Failed during unmarshalling'']) st)"
  "Type msg = MsgRandomNumber \<Longrightarrow>
     Unmarshal_RandomNumberMsg env (Content msg) = (Some e, randomMsg) \<Longrightarrow>
     gossip_step env msg st =
       emit (Logged [''Failed to unmarshal random number message:'', e]) st"
  by (simp_all add: gossip_step_def)

lemma dns_response_stream_decode_error:
  "Decode_GossipMessage env stream = (None, response) \<Longrightarrow> Type response = DNSResponse \<Longrightarrow>
   Unmarshal_BDNSResponse env (Content response) = (Some e, res) \<Longrightarrow>
     dns_response_stream env stream st =
       emit Closed (DNSResponseHandler res (emit (Logged [''Failed during unmarshalling'']) st))"
  by (simp add: dns_response_stream_def)

text \<open>
  Claim C1 says that a message whose payload does not decode is logged and dropped,
  without a call of its handler. The code does so for \<open>MsgRandomNumber\<close> only, where
  the branch ends in \<open>continue\<close>. For \<open>DNSRequest\<close>, \<open>MsgTransaction\<close>,
  \<open>MsgBlock\<close> and the payload of a \<open>/dns-response\<close> stream the failure is logged and
  the handler is then called with the value the decoder left behind. Below, the one-byte
  payload \<open>{\<close> is run through each of the five paths: four reach the handler with
  the zero value, the fifth logs and stops.
\<close>

theorem C1_undecodable_payload_reaches_handler:
  "Unmarshal_Transaction example_env [0x7b] = (Some ''unexpected end of JSON input'', zero_tx)
   \<and> events (gossip_step example_env
               \<lparr>Type = MsgTransaction, Content = [0x7b], Sender = ''peerB''\<rparr> example_sys) =
       [Logged [''Failed during unmarshalling''], Called_AddTransaction zero_tx]
   \<and> events (gossip_step example_env
               \<lparr>Type = DNSRequest, Content = [0x7b], Sender = ''peerB''\<rparr> example_sys) =
       [Logged [''Failed during unmarshalling''],
        Printed [''DNS Request received at '', ''/ip4/127.0.0.1/tcp/4001'', '' -> '', '''']]
   \<and> events (gossip_step example_env
               \<lparr>Type = MsgBlock, Content = [0x7b], Sender = ''peerB''\<rparr> example_sys) =
       [Logged [''Failed during unmarshalling''], Called_AddBlock ()]
   \<and> events (dns_response_stream example_env [3] example_sys) =
       [Logged [''Failed during unmarshalling''],
        Printed [''DNS Response received at '', ''/ip4/127.0.0.1/tcp/4001'', '' -> '', '''',
                 '' IP:'', ''''],
        Closed]
   \<and> events (gossip_step example_env
               \<lparr>Type = MsgRandomNumber, Content = [0x7b], Sender = ''peerB''\<rparr> example_sys) =
       [Logged [''Failed to unmarshal random number message:'',
                ''unexpected end of JSON input'']]"
proof -
  have tx: "Unmarshal_Transaction example_env [0x7b] =
              (Some ''unexpected end of JSON input'', zero_tx)"
    by (simp add: example_env_def)
  have req: "Unmarshal_BDNSRequest example_env [0x7b] =
              (Some ''unexpected end of JSON input'', \<lparr>BDNSRequest.DomainName = []\<rparr>)"
    by (simp add: example_env_def)
  have blk: "Unmarshal_Block example_env [0x7b] = (Some ''unexpected end of JSON input'', ())"
    by (simp add: example_env_def)
  have rnd: "Unmarshal_RandomNumberMsg example_env [0x7b] =
              (Some ''unexpected end of JSON input'',
               \<lparr>Epoch = 0, SecretValue = 0, RandomValue = 0, Sender = []\<rparr>)"
    by (simp add: example_env_def)
  have dec: "Decode_GossipMessage example_env [3] =
              (None, \<lparr>Type = DNSResponse, Content = [0x7b], Sender = ''peerA''\<rparr>)"
    by (simp add: example_env_def)
  have res: "Unmarshal_BDNSResponse example_env [0x7b] =
              (Some ''unexpected end of JSON input'',
               \<lparr>Timestamp = 0, DomainName = [], IP = [], TTL = 0, OwnerKey = [],
                Signature = []\<rparr>)"
    by (simp add: example_env_def)
  have idx: "GetIP (IndexManager example_node) [] = None"
    by (simp add: GetIP_def example_node_def)
  have addr: "Address example_node = ''/ip4/127.0.0.1/tcp/4001''"
    by (simp add: example_node_def)
  show ?thesis
  proof (intro conjI)
    show "Unmarshal_Transaction example_env [0x7b] =
            (Some ''unexpected end of JSON input'', zero_tx)"
      by (rule tx)
    show "events (gossip_step example_env
               \<lparr>Type = MsgTransaction, Content = [0x7b], Sender = ''peerB''\<rparr> example_sys) =
       [Logged [''Failed during unmarshalling''], Called_AddTransaction zero_tx]"
      by (simp add: gossip_step_def tx call_AddTransaction_def emit_def events_def
            example_sys_def)
    show "events (gossip_step example_env
               \<lparr>Type = DNSRequest, Content = [0x7b], Sender = ''peerB''\<rparr> example_sys) =
       [Logged [''Failed during unmarshalling''],
        Printed [''DNS Request received at '', ''/ip4/127.0.0.1/tcp/4001'', '' -> '', '''']]"
      by (simp add: gossip_step_def req DNSRequestHandler_def idx addr emit_def events_def
            example_sys_def)
    show "events (gossip_step example_env
               \<lparr>Type = MsgBlock, Content = [0x7b], Sender = ''peerB''\<rparr> example_sys) =
       [Logged [''Failed during unmarshalling''], Called_AddBlock ()]"
      by (simp add: gossip_step_def blk call_AddBlock_def emit_def events_def example_sys_def)
    show "events (dns_response_stream example_env [3] example_sys) =
       [Logged [''Failed during unmarshalling''],
        Printed [''DNS Response received at '', ''/ip4/127.0.0.1/tcp/4001'', '' -> '', '''',
                 '' IP:'', ''''],
        Closed]"
      by (simp add: dns_response_stream_def dec res DNSResponseHandler_def addr emit_def
            events_def example_sys_def)
    show "events (gossip_step example_env
               \<lparr>Type = MsgRandomNumber, Content = [0x7b], Sender = ''peerB''\<rparr> example_sys) =
       [Logged [''Failed to unmarshal random number message:'',
                ''unexpected end of JSON input'']]"
      by (simp add: gossip_step_def rnd emit_def events_def example_sys_def)
  qed
qed

subsection \<open>The epoch table\<close>

text \<open>
  Claim C2. After \<open>RandomNumberHandler E P s r\<close> the table holds \<open>{s, r}\<close> at
  \<open>[E][P]\<close>, and a second call with the same arguments changes nothing. The gossip
  path (a \<open>MsgRandomNumber\<close> envelope that decodes) and the local path
  (\<open>BroadcastRandomNumber\<close>) both leave the node in the state the handler gives.
\<close>

theorem C2_handler_stores_and_is_idempotent:
  "EpochRandomsAt (RandomNumberHandler E P s r n) E P =
     Some \<lparr>SecretValues.SecretValue = s, SecretValues.RandomValue = r\<rparr>
   \<and> RandomNumberHandler E P s r (RandomNumberHandler E P s r n) =
       RandomNumberHandler E P s r n
   \<and> (Type msg = MsgRandomNumber \<and>
       Unmarshal_RandomNumberMsg env (Content msg) =
         (None, \<lparr>Epoch = E, SecretValue = s, RandomValue = r, Sender = key\<rparr>) \<longrightarrow>
       node (gossip_step env msg st) =
         RandomNumberHandler E (hex_EncodeToString key) s r (node st))
   \<and> (KeyPair (node st) = Some kp \<and>
       CommitmentPhase env (RegistryKeys (node st)) (hex_EncodeToString (PublicKey kp)) =
         Some \<lparr>SecretValues.SecretValue = s, SecretValues.RandomValue = r\<rparr> \<longrightarrow>
       (\<exists>st'. BroadcastRandomNumber env E rk st = Inr st' \<and>
              node st' = RandomNumberHandler E (hex_EncodeToString (PublicKey kp)) s r (node st)))"
proof (intro conjI impI)
  show "EpochRandomsAt (RandomNumberHandler E P s r n) E P =
     Some \<lparr>SecretValues.SecretValue = s, SecretValues.RandomValue = r\<rparr>"
    by (simp add: EpochRandomsAt_handler)
  show "RandomNumberHandler E P s r (RandomNumberHandler E P s r n) =
       RandomNumberHandler E P s r n"
    by (rule RandomNumberHandler_idem)
next
  assume "Type msg = MsgRandomNumber \<and>
       Unmarshal_RandomNumberMsg env (Content msg) =
         (None, \<lparr>Epoch = E, SecretValue = s, RandomValue = r, Sender = key\<rparr>)"
  then show "node (gossip_step env msg st) =
         RandomNumberHandler E (hex_EncodeToString key) s r (node st)"
    by (simp add: gossip_step_def)
next
  assume a: "KeyPair (node st) = Some kp \<and>
       CommitmentPhase env (RegistryKeys (node st)) (hex_EncodeToString (PublicKey kp)) =
         Some \<lparr>SecretValues.SecretValue = s, SecretValues.RandomValue = r\<rparr>"
  then show "\<exists>st'. BroadcastRandomNumber env E rk st = Inr st' \<and>
              node st' = RandomNumberHandler E (hex_EncodeToString (PublicKey kp)) s r (node st)"
    by (simp add: BroadcastRandomNumber_Some Let_def)
qed

text \<open>The same at epoch 7 for the key \<open>ab01\<close> with values 5 and 9.\<close>

theorem C2_witness:
  "EpochRandomsAt (RandomNumberHandler 7 ''ab01'' 5 9 example_node) 7 ''ab01'' =
     Some \<lparr>SecretValues.SecretValue = 5, SecretValues.RandomValue = 9\<rparr>
   \<and> RandomNumberHandler 7 ''ab01'' 5 9 (RandomNumberHandler 7 ''ab01'' 5 9 example_node) =
       RandomNumberHandler 7 ''ab01'' 5 9 example_node
   \<and> node (gossip_step example_env
              \<lparr>Type = MsgRandomNumber, Content = [1], Sender = ''peerB''\<rparr> example_sys) =
       RandomNumberHandler 7 ''ab01'' 5 9 example_node
   \<and> (\<exists>st'. BroadcastRandomNumber example_env 7 [] example_sys = Inr st' \<and>
            node st' = RandomNumberHandler 7 ''ab01'' 5 9 example_node)"
  using C2_handler_stores_and_is_idempotent
          [of 7 "''ab01''" 5 9 example_node
              "\<lparr>Type = MsgRandomNumber, Content = [1], Sender = ''peerB''\<rparr>"
              example_env example_key example_sys
              "\<lparr>PublicKey = example_key, PrivateKey = [3]\<rparr>" "[]"]
  by (simp add: hex_example_key example_env_def example_sys_def example_node_def)

text \<open>
  Claim C10. \<open>RandomNumberHandler E P s r\<close> leaves every other cell \<open>[E'][P']\<close> of
  the table as it was, and changes no field of the node but \<open>EpochRandoms\<close>: the
  transaction pool, the slot leaders, the blockchain reference and the stored random
  bytes are the same.
\<close>

theorem C10_handler_frame:
  "((E', P') \<noteq> (E, P) \<longrightarrow>
      EpochRandomsAt (RandomNumberHandler E P s r n) E' P' = EpochRandomsAt n E' P')
   \<and> RandomNumberHandler E P s r n =
       n\<lparr>EpochRandoms := EpochRandoms (RandomNumberHandler E P s r n)\<rparr>
   \<and> TransactionPool (RandomNumberHandler E P s r n) = TransactionPool n
   \<and> SlotLeaders (RandomNumberHandler E P s r n) = SlotLeaders n
   \<and> Blockchain (RandomNumberHandler E P s r n) = Blockchain n
   \<and> RandomNumber (RandomNumberHandler E P s r n) = RandomNumber n"
proof (intro conjI impI)
  assume "(E', P') \<noteq> (E, P)"
  then show "EpochRandomsAt (RandomNumberHandler E P s r n) E' P' = EpochRandomsAt n E' P'"
    by (auto simp: EpochRandomsAt_handler)
next
  show "RandomNumberHandler E P s r n =
       n\<lparr>EpochRandoms := EpochRandoms (RandomNumberHandler E P s r n)\<rparr>"
    by (rule RandomNumberHandler_frame)
qed (simp_all add: RandomNumberHandler_def Let_def)

text \<open>
  At epoch 7, storing under \<open>ab01\<close> leaves the cell of \<open>cd\<close> empty and the pool
  as it was.
\<close>

theorem C10_witness:
  "(7, ''cd'') \<noteq> (7 :: int64, ''ab01'')
   \<and> EpochRandomsAt (RandomNumberHandler 7 ''ab01'' 5 9 example_node) 7 ''cd'' = None
   \<and> TransactionPool (RandomNumberHandler 7 ''ab01'' 5 9 example_node) = Some Map.empty
   \<and> RandomNumber (RandomNumberHandler 7 ''ab01'' 5 9 example_node) = []"
proof -
  note frame = C10_handler_frame [of 7 "''cd''" 7 "''ab01''" 5 9 example_node]
  have ne: "(7, ''cd'') \<noteq> (7 :: int64, ''ab01'')"
    by simp
  have "EpochRandomsAt (RandomNumberHandler 7 ''ab01'' 5 9 example_node) 7 ''cd'' =
        EpochRandomsAt example_node 7 ''cd''"
    using frame [THEN conjunct1] ne by blast
  moreover have "TransactionPool (RandomNumberHandler 7 ''ab01'' 5 9 example_node) =
        TransactionPool example_node"
    using frame by blast
  moreover have "RandomNumber (RandomNumberHandler 7 ''ab01'' 5 9 example_node) =
        RandomNumber example_node"
    using frame by blast
  ultimately show ?thesis
    using ne by (simp add: EpochRandomsAt_def example_node_def entries_def)
qed

text \<open>
  Claim C5. Two handler calls on different (epoch, sender) keys commute. So for
  contributions of one epoch from distinct senders, every order of delivery gives the
  same node, and the table of the epoch then holds, for each contributing sender, that
  sender's values, and for every other sender what it held before.
\<close>

theorem C5_contributions_commute:
  "((E1, P1) \<noteq> (E2, P2) \<longrightarrow>
      RandomNumberHandler E1 P1 s1 r1 (RandomNumberHandler E2 P2 s2 r2 n) =
      RandomNumberHandler E2 P2 s2 r2 (RandomNumberHandler E1 P1 s1 r1 n))
   \<and> (distinct (map fst cs) \<and> mset cs' = mset cs \<longrightarrow>
        deliver_contributions E cs' n = deliver_contributions E cs n
        \<and> (\<forall>P. EpochRandomsAt (deliver_contributions E cs' n) E P =
                 (case map_of cs P of
                    Some v \<Rightarrow> Some \<lparr>SecretValues.SecretValue = fst v,
                                     SecretValues.RandomValue = snd v\<rparr>
                  | None \<Rightarrow> EpochRandomsAt n E P)))"
proof (intro conjI impI allI)
  assume "(E1, P1) \<noteq> (E2, P2)"
  then show "RandomNumberHandler E1 P1 s1 r1 (RandomNumberHandler E2 P2 s2 r2 n) =
      RandomNumberHandler E2 P2 s2 r2 (RandomNumberHandler E1 P1 s1 r1 n)"
    by (intro RandomNumberHandler_commute) simp
next
  assume "distinct (map fst cs) \<and> mset cs' = mset cs"
  then show "deliver_contributions E cs' n = deliver_contributions E cs n"
    by (simp add: deliver_contributions_perm)
next
  fix P
  assume a: "distinct (map fst cs) \<and> mset cs' = mset cs"
  then have "deliver_contributions E cs' n = deliver_contributions E cs n"
    by (simp add: deliver_contributions_perm)
  with a show "EpochRandomsAt (deliver_contributions E cs' n) E P =
                 (case map_of cs P of
                    Some v \<Rightarrow> Some \<lparr>SecretValues.SecretValue = fst v,
                                     SecretValues.RandomValue = snd v\<rparr>
                  | None \<Rightarrow> EpochRandomsAt n E P)"
    by (simp add: EpochRandomsAt_deliver)
qed

text \<open>
  Three participants at epoch 7, delivered in two different orders.
\<close>

theorem C5_witness:
  "deliver_contributions 7 [(''cc'', 5, 6), (''aa'', 1, 2), (''bb'', 3, 4)] example_node =
     deliver_contributions 7 [(''aa'', 1, 2), (''bb'', 3, 4), (''cc'', 5, 6)] example_node
   \<and> EpochRandomsAt (deliver_contributions 7 [(''cc'', 5, 6), (''aa'', 1, 2), (''bb'', 3, 4)]
        example_node) 7 ''aa'' = Some \<lparr>SecretValues.SecretValue = 1, SecretValues.RandomValue = 2\<rparr>
   \<and> EpochRandomsAt (deliver_contributions 7 [(''cc'', 5, 6), (''aa'', 1, 2), (''bb'', 3, 4)]
        example_node) 7 ''bb'' = Some \<lparr>SecretValues.SecretValue = 3, SecretValues.RandomValue = 4\<rparr>
   \<and> EpochRandomsAt (deliver_contributions 7 [(''cc'', 5, 6), (''aa'', 1, 2), (''bb'', 3, 4)]
        example_node) 7 ''cc'' = Some \<lparr>SecretValues.SecretValue = 5, SecretValues.RandomValue = 6\<rparr>
   \<and> EpochRandomsAt (deliver_contributions 7 [(''cc'', 5, 6), (''aa'', 1, 2), (''bb'', 3, 4)]
        example_node) 7 ''dd'' = None"
proof -
  have d: "distinct (map fst [(''aa'', 1 :: go_int, 2 :: go_int), (''bb'', 3, 4), (''cc'', 5, 6)])"
    by simp
  have m: "mset [(''cc'', 5 :: go_int, 6 :: go_int), (''aa'', 1, 2), (''bb'', 3, 4)] =
           mset [(''aa'', 1, 2), (''bb'', 3, 4), (''cc'', 5, 6)]"
    by simp
  have z: "EpochRandomsAt example_node 7 ''dd'' = None"
    by (simp add: EpochRandomsAt_def example_node_def entries_def)
  from C5_contributions_commute
         [of 7 "''aa''" 7 "''bb''" 1 2 3 4 example_node
             "[(''aa'', 1, 2), (''bb'', 3, 4), (''cc'', 5, 6)]"
             "[(''cc'', 5, 6), (''aa'', 1, 2), (''bb'', 3, 4)]" 7] d m
  have eq: "deliver_contributions 7 [(''cc'', 5, 6), (''aa'', 1, 2), (''bb'', 3, 4)] example_node =
     deliver_contributions 7 [(''aa'', 1, 2), (''bb'', 3, 4), (''cc'', 5, 6)] example_node"
   and at: "\<And>P. EpochRandomsAt
              (deliver_contributions 7 [(''cc'', 5, 6), (''aa'', 1, 2), (''bb'', 3, 4)]
                 example_node) 7 P =
            (case map_of [(''aa'', 1 :: go_int, 2 :: go_int), (''bb'', 3, 4), (''cc'', 5, 6)] P of
               Some v \<Rightarrow> Some \<lparr>SecretValues.SecretValue = fst v,
                                SecretValues.RandomValue = snd v\<rparr>
             | None \<Rightarrow> EpochRandomsAt example_node 7 P)"
    by blast+
  show ?thesis
  proof (intro conjI)
    show "deliver_contributions 7 [(''cc'', 5, 6), (''aa'', 1, 2), (''bb'', 3, 4)] example_node =
      deliver_contributions 7 [(''aa'', 1, 2), (''bb'', 3, 4), (''cc'', 5, 6)] example_node"
      by (rule eq)
  qed (simp_all only: at, simp_all add: z)
qed

subsection \<open>Broadcasting\<close>

text \<open>
  Claim C3. In \<open>BroadcastRandomNumber\<close> the gossip send happens in a node state that
  already holds the broadcaster's own values at \<open>[E][self]\<close>, written by
  \<open>RandomNumberHandler\<close>; in \<open>BroadcastTransaction\<close> the call of
  \<open>AddTransaction\<close> comes before the send, which happens in the state that call
  returned. The first part is for a node with a key pair: with a nil \<open>KeyPair\<close> the
  method panics before any update or send.
\<close>

theorem C3_local_update_precedes_send:
  "(KeyPair (node st) = Some kp \<longrightarrow>
      (\<exists>msg nd.
         BroadcastRandomNumber env E rk st =
           Inr \<lparr>node = nd,
                trace = trace st @
                  [(Called_CommitmentPhase (RegistryKeys (node st)), node st),
                   (Broadcast MsgRandomNumber (PRandom msg), nd)]\<rparr>
         \<and> Epoch msg = E \<and> RandomNumberMsg.Sender msg = PublicKey kp
         \<and> nd = RandomNumberHandler E (hex_EncodeToString (PublicKey kp))
                  (RandomNumberMsg.SecretValue msg) (RandomNumberMsg.RandomValue msg) (node st)
         \<and> EpochRandomsAt nd E (hex_EncodeToString (PublicKey kp)) =
             Some \<lparr>SecretValues.SecretValue = RandomNumberMsg.SecretValue msg,
                   SecretValues.RandomValue = RandomNumberMsg.RandomValue msg\<rparr>))
   \<and> BroadcastTransaction env tx st =
       \<lparr>node = AddTransaction env tx (node st),
        trace = trace st @
          [(Called_AddTransaction tx, node st),
           (Broadcast MsgTransaction (PTransaction tx), AddTransaction env tx (node st))]\<rparr>"
proof (intro conjI impI)
  assume kp: "KeyPair (node st) = Some kp"
  define v where "v = (case CommitmentPhase env (RegistryKeys (node st))
                      (hex_EncodeToString (PublicKey kp)) of
                 None \<Rightarrow> \<lparr>SecretValues.SecretValue = 0, SecretValues.RandomValue = 0\<rparr>
               | Some v \<Rightarrow> v)"
  define msg where "msg = \<lparr>Epoch = E, SecretValue = SecretValues.SecretValue v,
                              RandomValue = SecretValues.RandomValue v,
                              Sender = PublicKey kp\<rparr>"
  define nd where "nd = RandomNumberHandler E (hex_EncodeToString (PublicKey kp))
                 (SecretValues.SecretValue v) (SecretValues.RandomValue v) (node st)"
  have run: "BroadcastRandomNumber env E rk st =
           Inr \<lparr>node = nd,
                trace = trace st @
                  [(Called_CommitmentPhase (RegistryKeys (node st)), node st),
                   (Broadcast MsgRandomNumber (PRandom msg), nd)]\<rparr>"
    using BroadcastRandomNumber_Some [OF kp, of env E rk]
    by (simp add: Let_def v_def msg_def nd_def)
  have tab: "EpochRandomsAt nd E (hex_EncodeToString (PublicKey kp)) =
             Some \<lparr>SecretValues.SecretValue = RandomNumberMsg.SecretValue msg,
                   SecretValues.RandomValue = RandomNumberMsg.RandomValue msg\<rparr>"
    by (simp add: nd_def msg_def EpochRandomsAt_handler)
  have "Epoch msg = E" "RandomNumberMsg.Sender msg = PublicKey kp"
       "nd = RandomNumberHandler E (hex_EncodeToString (PublicKey kp))
                  (RandomNumberMsg.SecretValue msg) (RandomNumberMsg.RandomValue msg) (node st)"
    by (simp_all add: msg_def nd_def)
  with run tab show "\<exists>msg nd.
         BroadcastRandomNumber env E rk st =
           Inr \<lparr>node = nd,
                trace = trace st @
                  [(Called_CommitmentPhase (RegistryKeys (node st)), node st),
                   (Broadcast MsgRandomNumber (PRandom msg), nd)]\<rparr>
         \<and> Epoch msg = E \<and> RandomNumberMsg.Sender msg = PublicKey kp
         \<and> nd = RandomNumberHandler E (hex_EncodeToString (PublicKey kp))
                  (RandomNumberMsg.SecretValue msg) (RandomNumberMsg.RandomValue msg) (node st)
         \<and> EpochRandomsAt nd E (hex_EncodeToString (PublicKey kp)) =
             Some \<lparr>SecretValues.SecretValue = RandomNumberMsg.SecretValue msg,
                   SecretValues.RandomValue = RandomNumberMsg.RandomValue msg\<rparr>"
    by blast
next
  show "BroadcastTransaction env tx st =
       \<lparr>node = AddTransaction env tx (node st),
        trace = trace st @
          [(Called_AddTransaction tx, node st),
           (Broadcast MsgTransaction (PTransaction tx), AddTransaction env tx (node st))]\<rparr>"
    by (simp add: BroadcastTransaction_def BroadcastMessage_def call_AddTransaction_def emit_def)
qed

text \<open>
  On the concrete node, whose table is empty before the call.
\<close>

theorem C3_witness:
  "(\<exists>msg nd.
      BroadcastRandomNumber example_env 7 [] example_sys =
        Inr \<lparr>node = nd,
             trace = [(Called_CommitmentPhase [example_key, [0xcd]], example_node),
                      (Broadcast MsgRandomNumber (PRandom msg), nd)]\<rparr>
      \<and> Epoch msg = 7 \<and> RandomNumberMsg.Sender msg = example_key
      \<and> nd = RandomNumberHandler 7 ''ab01''
               (RandomNumberMsg.SecretValue msg) (RandomNumberMsg.RandomValue msg) example_node
      \<and> EpochRandomsAt nd 7 ''ab01'' =
          Some \<lparr>SecretValues.SecretValue = RandomNumberMsg.SecretValue msg,
                SecretValues.RandomValue = RandomNumberMsg.RandomValue msg\<rparr>)
   \<and> EpochRandomsAt example_node 7 ''ab01'' = None"
  using C3_local_update_precedes_send
          [of example_sys "\<lparr>PublicKey = example_key, PrivateKey = [3]\<rparr>" example_env 7 "[]"]
  by (simp add: hex_example_key example_sys_def example_node_def EpochRandomsAt_def entries_def)

text \<open>
  Claim C7. \<open>BroadcastRandomNumber E\<close> calls the commitment phase on the node's
  \<open>RegistryKeys\<close>, reads the result at the hex encoding of its own public key (the
  zero value when the key is missing), and broadcasts a \<open>MsgRandomNumber\<close> message
  with \<open>E\<close>, the two values read, and its public key as sender.
\<close>

theorem C7_broadcast_random_number_message:
  "KeyPair (node st) = Some kp \<longrightarrow>
     (\<exists>st'. BroadcastRandomNumber env E rk st = Inr st' \<and>
        events st' = events st @
          [Called_CommitmentPhase (RegistryKeys (node st)),
           Broadcast MsgRandomNumber
             (PRandom
                (case CommitmentPhase env (RegistryKeys (node st))
                        (hex_EncodeToString (PublicKey kp)) of
                   Some v \<Rightarrow>
                     \<lparr>Epoch = E, SecretValue = SecretValues.SecretValue v,
                      RandomValue = SecretValues.RandomValue v, Sender = PublicKey kp\<rparr>
                 | None \<Rightarrow>
                     \<lparr>Epoch = E, SecretValue = 0, RandomValue = 0, Sender = PublicKey kp\<rparr>))])"
  by (simp add: BroadcastRandomNumber_Some Let_def events_def split: option.splits)

text \<open>
  On the concrete node, whose commitment phase gives 5 and 9 to every key.
\<close>

theorem C7_witness:
  "\<exists>st'. BroadcastRandomNumber example_env 7 [] example_sys = Inr st' \<and>
      events st' =
        [Called_CommitmentPhase [example_key, [0xcd]],
         Broadcast MsgRandomNumber
           (PRandom \<lparr>Epoch = 7, SecretValue = 5, RandomValue = 9, Sender = example_key\<rparr>)]"
  using C7_broadcast_random_number_message
          [of example_sys "\<lparr>PublicKey = example_key, PrivateKey = [3]\<rparr>" example_env 7 "[]"]
  by (simp add: hex_example_key example_env_def example_sys_def example_node_def events_def)

text \<open>
  Claim C9. The parameter \<open>registryKeys\<close> of \<open>BroadcastRandomNumber\<close> does not
  influence the result, whether the call returns or panics; the commitment phase is
  called on the \<open>RegistryKeys\<close> field of the node.
\<close>

theorem C9_registryKeys_argument_unused:
  "BroadcastRandomNumber env E rk1 st = BroadcastRandomNumber env E rk2 st
   \<and> (\<exists>rest.
        trace (case BroadcastRandomNumber env E rk1 st of
                 Inl (p, st') \<Rightarrow> st' | Inr st' \<Rightarrow> st') =
          trace st @ (Called_CommitmentPhase (RegistryKeys (node st)), node st) # rest)"
  by (simp add: BroadcastRandomNumber_def BroadcastMessage_def emit_def Let_def
        split: option.splits)

text \<open>Two different arguments on the concrete node.\<close>

theorem C9_witness:
  "BroadcastRandomNumber example_env 7 [] example_sys =
   BroadcastRandomNumber example_env 7 [[0xff], example_key] example_sys"
  by (rule C9_registryKeys_argument_unused [THEN conjunct1])

subsection \<open>The DNS protocol\<close>

text \<open>
  Claim C4. \<open>DNSRequestHandler\<close> sends nothing when the index has no record for
  the domain (it only prints its line), and otherwise sends one direct
  \<open>DNSResponse\<close> message, built from the six fields of the stored record, to the
  \<open>reqSender\<close> it was given; the dispatch loop passes the \<open>Sender\<close> of the gossip
  envelope as \<open>reqSender\<close>.
\<close>

theorem C4_dns_responder:
  "(GetIP (IndexManager (node st)) (BDNSRequest.DomainName req) = None \<longrightarrow>
      DNSRequestHandler req reqSender st =
        st\<lparr>trace := trace st @
              [(Printed [''DNS Request received at '', Address (node st), '' -> '',
                         BDNSRequest.DomainName req], node st)]\<rparr>)
   \<and> (GetIP (IndexManager (node st)) (BDNSRequest.DomainName req) = Some tx \<longrightarrow>
      DNSRequestHandler req reqSender st =
        st\<lparr>trace := trace st @
              [(Direct DNSResponse
                  (PResponse \<lparr>Timestamp = Transaction.Timestamp tx,
                              DomainName = Transaction.DomainName tx,
                              IP = Transaction.IP tx,
                              TTL = Transaction.TTL tx,
                              OwnerKey = Transaction.OwnerKey tx,
                              Signature = Transaction.Signature tx\<rparr>)
                  reqSender, node st),
               (Printed [''DNS Request received at '', Address (node st), '' -> '',
                         BDNSRequest.DomainName req], node st)]\<rparr>)
   \<and> (Type msg = DNSRequest \<and> Unmarshal_BDNSRequest env (Content msg) = (err, req) \<longrightarrow>
      gossip_step env msg st =
        DNSRequestHandler req (GossipMessage.Sender msg)
          (case err of Some e \<Rightarrow> emit (Logged [''Failed during unmarshalling'']) st
                     | None \<Rightarrow> st))"
proof (intro conjI impI)
  assume "GetIP (IndexManager (node st)) (BDNSRequest.DomainName req) = None"
  then show "DNSRequestHandler req reqSender st =
        st\<lparr>trace := trace st @
              [(Printed [''DNS Request received at '', Address (node st), '' -> '',
                         BDNSRequest.DomainName req], node st)]\<rparr>"
    by (simp add: DNSRequestHandler_def emit_def)
next
  assume "GetIP (IndexManager (node st)) (BDNSRequest.DomainName req) = Some tx"
  then show "DNSRequestHandler req reqSender st =
        st\<lparr>trace := trace st @
              [(Direct DNSResponse
                  (PResponse \<lparr>Timestamp = Transaction.Timestamp tx,
                              DomainName = Transaction.DomainName tx,
                              IP = Transaction.IP tx,
                              TTL = Transaction.TTL tx,
                              OwnerKey = Transaction.OwnerKey tx,
                              Signature = Transaction.Signature tx\<rparr>)
                  reqSender, node st),
               (Printed [''DNS Request received at '', Address (node st), '' -> '',
                         BDNSRequest.DomainName req], node st)]\<rparr>"
    by (simp add: DNSRequestHandler_def DirectMessage_def emit_def)
next
  assume "Type msg = DNSRequest \<and> Unmarshal_BDNSRequest env (Content msg) = (err, req)"
  then show "gossip_step env msg st =
        DNSRequestHandler req (GossipMessage.Sender msg)
          (case err of Some e \<Rightarrow> emit (Logged [''Failed during unmarshalling'']) st
                     | None \<Rightarrow> st)"
    by (simp add: gossip_step_def)
qed

text \<open>
  A query for a missing domain and a query for the stored one, both from \<open>peerB\<close>.
\<close>

theorem C4_witness:
  "events (gossip_step example_env
             \<lparr>Type = DNSRequest, Content = [2], Sender = ''peerB''\<rparr> example_sys) =
     [Printed [''DNS Request received at '', ''/ip4/127.0.0.1/tcp/4001'', '' -> '',
               ''missing.bdns'']]
   \<and> events (gossip_step example_env
               \<lparr>Type = DNSRequest, Content = [1], Sender = ''peerB''\<rparr> example_sys) =
     [Direct DNSResponse
        (PResponse \<lparr>Timestamp = 1, DomainName = ''example.bdns'', IP = ''10.0.0.1'',
                    TTL = 3600, OwnerKey = [1], Signature = [2]\<rparr>) ''peerB'',
      Printed [''DNS Request received at '', ''/ip4/127.0.0.1/tcp/4001'', '' -> '',
               ''example.bdns'']]"
  using C4_dns_responder
          [of example_sys "\<lparr>BDNSRequest.DomainName = ''missing.bdns''\<rparr>" "''peerB''" example_tx
              "\<lparr>Type = DNSRequest, Content = [2], Sender = ''peerB''\<rparr>" example_env None]
        C4_dns_responder
          [of example_sys "\<lparr>BDNSRequest.DomainName = ''example.bdns''\<rparr>" "''peerB''" example_tx
              "\<lparr>Type = DNSRequest, Content = [1], Sender = ''peerB''\<rparr>" example_env None]
  by (simp add: example_env_def example_sys_def example_node_def example_tx_def GetIP_def
        events_def)

text \<open>
  Claim C6. On \<open>/dns-response\<close>, an envelope of any other type than
  \<open>DNSResponse\<close> is logged and the stream closed, with no send and no call of
  \<open>DNSResponseHandler\<close>; an envelope of type \<open>DNSResponse\<close> has its payload
  handed to \<open>DNSResponseHandler\<close>.
\<close>

theorem C6_direct_stream_type_check:
  "ListenForDirectMessages env ''/dns-response'' = Some (dns_response_stream env)
   \<and> (Decode_GossipMessage env stream = (None, response) \<and> Type response \<noteq> DNSResponse \<longrightarrow>
        dns_response_stream env stream st =
          st\<lparr>trace := trace st @
                [(Logged [''Invalid message type received''], node st), (Closed, node st)]\<rparr>)
   \<and> (Decode_GossipMessage env stream = (None, response) \<and> Type response = DNSResponse \<and>
       Unmarshal_BDNSResponse env (Content response) = (err, res) \<longrightarrow>
        dns_response_stream env stream st =
          emit Closed (DNSResponseHandler res
            (case err of Some e \<Rightarrow> emit (Logged [''Failed during unmarshalling'']) st
                       | None \<Rightarrow> st))
        \<and> trace (dns_response_stream env stream st) =
            trace st @
            (case err of Some e \<Rightarrow> [(Logged [''Failed during unmarshalling''], node st)]
                       | None \<Rightarrow> []) @
            [(Printed [''DNS Response received at '', Address (node st), '' -> '',
                       BDNSResponse.DomainName res, '' IP:'', BDNSResponse.IP res], node st),
             (Closed, node st)])"
  by (auto simp: ListenForDirectMessages_def dns_response_stream_def DNSResponseHandler_def
        emit_def split: option.splits)

text \<open>
  A \<open>MsgTransaction\<close> envelope and a \<open>DNSResponse\<close> envelope on the stream.
\<close>

theorem C6_witness:
  "events (dns_response_stream example_env [2] example_sys) =
     [Logged [''Invalid message type received''], Closed]
   \<and> events (dns_response_stream example_env [1] example_sys) =
     [Printed [''DNS Response received at '', ''/ip4/127.0.0.1/tcp/4001'', '' -> '',
               ''example.bdns'', '' IP:'', ''10.0.0.1''], Closed]"
  using C6_direct_stream_type_check
          [of example_env "[2]" "\<lparr>Type = MsgTransaction, Content = [1], Sender = ''peerA''\<rparr>"
              example_sys None
              "\<lparr>Timestamp = 1, DomainName = ''example.bdns'', IP = ''10.0.0.1'',
                TTL = 3600, OwnerKey = [1], Signature = [2]\<rparr>"]
        C6_direct_stream_type_check
          [of example_env "[1]" "\<lparr>Type = DNSResponse, Content = [1], Sender = ''peerA''\<rparr>"
              example_sys None
              "\<lparr>Timestamp = 1, DomainName = ''example.bdns'', IP = ''10.0.0.1'',
                TTL = 3600, OwnerKey = [1], Signature = [2]\<rparr>"]
  by (simp add: example_env_def example_sys_def example_node_def events_def
        DNSResponseHandler_def emit_def)

subsection \<open>The random number generator\<close>

text \<open>
  Claim C8. When \<open>rand.Read\<close> reports an error, \<open>GenerateRandomNumber\<close> logs and
  panics, and stores nothing; when it reports none, the method stores the 32 bytes in
  \<open>RandomNumber\<close> and returns them.
\<close>

theorem C8_entropy_failure_is_fatal:
  "(rand_Read env 32 = (written, Some e) \<longrightarrow>
      GenerateRandomNumber env st =
        Inl (Panic [''Failed to generate random number:'', e],
             st\<lparr>trace := trace st @
                   [(Logged [''Failed to generate random number:'', e], node st)]\<rparr>))
   \<and> (rand_Read env 32 = (written, None) \<longrightarrow>
      (\<exists>randomBytes.
         GenerateRandomNumber env st =
           Inr (randomBytes, st\<lparr>node := (node st)\<lparr>RandomNumber := randomBytes\<rparr>\<rparr>)
         \<and> length randomBytes = 32))"
  by (auto simp: GenerateRandomNumber_def emit_def Let_def)

text \<open>
  A generator that fails with \<open>EOF\<close>, and the one of the concrete collaborators.
\<close>

theorem C8_witness:
  "GenerateRandomNumber (example_env\<lparr>rand_Read := \<lambda>k. ([], Some ''EOF'')\<rparr>) example_sys =
     Inl (Panic [''Failed to generate random number:'', ''EOF''],
          example_sys\<lparr>trace :=
            [(Logged [''Failed to generate random number:'', ''EOF''], example_node)]\<rparr>)
   \<and> (\<exists>randomBytes.
         GenerateRandomNumber example_env example_sys =
           Inr (randomBytes, example_sys\<lparr>node := example_node\<lparr>RandomNumber := randomBytes\<rparr>\<rparr>)
         \<and> length randomBytes = 32)"
  using C8_entropy_failure_is_fatal
          [of "example_env\<lparr>rand_Read := \<lambda>k. ([], Some ''EOF'')\<rparr>" "[]" "''EOF''" example_sys]
        C8_entropy_failure_is_fatal
          [of example_env "replicate 32 7" "''EOF''" example_sys]
  by (simp add: example_env_def example_sys_def)

end
